theory Spec2Isabelle
  imports Main "HOL-Library.Sublist"
begin

section \<open>Strings and paths used by the generator\<close>

text \<open>
  The generator calls four functions of the Go standard library on template names:
  \<^verbatim>\<open>strings.HasSuffix\<close>, \<^verbatim>\<open>strings.TrimSuffix\<close>, \<^verbatim>\<open>filepath.Base\<close> and
  \<^verbatim>\<open>filepath.Join\<close>. They are written out here as the library computes them on a
  system whose path separator is the slash. A Go string is a sequence of bytes, a
  \<^typ>\<open>string\<close> here.
\<close>

definition HasSuffix :: "string \<Rightarrow> string \<Rightarrow> bool" where
  "HasSuffix s suf =
     (length s \<ge> length suf \<and> drop (length s - length suf) s = suf)"

definition TrimSuffix :: "string \<Rightarrow> string \<Rightarrow> string" where
  "TrimSuffix s suf =
     (if HasSuffix s suf then take (length s - length suf) s else s)"

definition IsPathSeparator :: "char \<Rightarrow> bool" where
  "IsPathSeparator c = (c = CHR ''/'')"

text \<open>
  \<^verbatim>\<open>filepath.Base\<close>: the empty path gives a dot; trailing separators are stripped; what
  follows the last separator is kept; a path of separators only gives one separator.
\<close>

fun strip_trailing :: "string \<Rightarrow> string" where
  "strip_trailing path =
     (if path \<noteq> [] \<and> IsPathSeparator (last path) then strip_trailing (butlast path)
      else path)"

declare strip_trailing.simps [simp del]

fun last_element :: "string \<Rightarrow> string \<Rightarrow> string" where
  "last_element acc [] = acc"
| "last_element acc (c # cs) =
     (if IsPathSeparator c then last_element [] cs else last_element (acc @ [c]) cs)"

definition Base :: "string \<Rightarrow> string" where
  "Base path =
     (if path = [] then ''.''
      else let p = last_element [] (strip_trailing path)
           in if p = [] then ''/'' else p)"

text \<open>
  \<^verbatim>\<open>filepath.Clean\<close> reads the path from the left and writes into a buffer: \<open>out\<close> is
  what has been written, \<open>dotdot\<close> the index in the buffer below which a
  \<^verbatim>\<open>..\<close> must not remove anything. \<open>backtrack\<close> is the inner loop that drops the last
  element written.
\<close>

fun backtrack :: "string \<Rightarrow> nat \<Rightarrow> nat \<Rightarrow> nat" where
  "backtrack buf dotdot w =
     (if w > dotdot \<and> \<not> IsPathSeparator (buf ! w) then backtrack buf dotdot (w - 1)
      else w)"

declare backtrack.simps [simp del]

function clean_loop :: "bool \<Rightarrow> string \<Rightarrow> string \<Rightarrow> nat \<Rightarrow> string" where
  "clean_loop rooted [] out dotdot = out"
| "clean_loop rooted (c # cs) out dotdot =
     (if IsPathSeparator c then clean_loop rooted cs out dotdot
      else if c = CHR ''.'' \<and> (case cs of [] \<Rightarrow> True | c1 # _ \<Rightarrow> IsPathSeparator c1)
      then clean_loop rooted cs out dotdot
      else if c = CHR ''.'' \<and>
              (case cs of [] \<Rightarrow> False
               | c1 # cs1 \<Rightarrow> c1 = CHR ''.'' \<and>
                   (case cs1 of [] \<Rightarrow> True | c2 # _ \<Rightarrow> IsPathSeparator c2))
      then (if length out > dotdot
            then clean_loop rooted (tl cs)
                   (take (backtrack out dotdot (length out - 1)) out) dotdot
            else if \<not> rooted
            then (let out' = (if length out > 0 then out @ ''/'' else out) @ ''..''
                  in clean_loop rooted (tl cs) out' (length out'))
            else clean_loop rooted (tl cs) out dotdot)
      else (let out' = (if rooted \<and> length out \<noteq> 1 \<or> \<not> rooted \<and> length out \<noteq> 0
                        then out @ ''/'' else out)
            in clean_loop rooted (dropWhile (\<lambda>x. \<not> IsPathSeparator x) cs)
                 (out' @ c # takeWhile (\<lambda>x. \<not> IsPathSeparator x) cs) dotdot))"
  by pat_completeness auto
termination
  by (relation "measure (\<lambda>(rooted, path, out, dotdot). length path)")
     (auto simp: less_Suc_eq_le length_dropWhile_le split: list.splits)

definition Clean :: "string \<Rightarrow> string" where
  "Clean path =
     (if path = [] then ''.''
      else let rooted = IsPathSeparator (hd path);
               out = (if rooted then clean_loop True (tl path) ''/'' 1
                      else clean_loop False path [] 0)
           in if out = [] then ''.'' else out)"

text \<open>
  \<^verbatim>\<open>filepath.Join\<close>: the leading empty elements are dropped, the others are joined by
  the separator and the result is cleaned; no non-empty element gives the empty string.
\<close>

fun join_sep :: "string list \<Rightarrow> string" where
  "join_sep [] = []"
| "join_sep [e] = e"
| "join_sep (e # es) = e @ ''/'' @ join_sep es"

fun Join :: "string list \<Rightarrow> string" where
  "Join [] = []"
| "Join (e # es) = (if e \<noteq> [] then Clean (join_sep (e # es)) else Join es)"

declare Join.simps [simp del]

text \<open>
  \<^verbatim>\<open>strings.Contains\<close>, and the decimal form that the verb \<^verbatim>\<open>%d\<close> gives a length.
\<close>

fun Contains :: "string \<Rightarrow> string \<Rightarrow> bool" where
  "Contains [] substr = (substr = [])"
| "Contains (c # cs) substr = (prefix substr (c # cs) \<or> Contains cs substr)"

fun Itoa :: "nat \<Rightarrow> string" where
  "Itoa n =
     (if n < 10 then [''0123456789'' ! n]
      else Itoa (n div 10) @ [''0123456789'' ! (n mod 10)])"

declare Itoa.simps [simp del]

section \<open>The template data\<close>

text \<open>
  \<^verbatim>\<open>TemplateData\<close> holds what every template reads. The operation, enum and image
  type descriptions belong to the introspection package; the generator only stores the
  three slices, so their element types are parameters.
\<close>

record ('op, 'en, 'im) TemplateData =
  VipsVersion :: string
  Operations :: "'op list"
  EnumTypes :: "'en list"
  ImageTypes :: "'im list"
  IncludeTest :: bool

definition NewTemplateData ::
  "string \<Rightarrow> 'op list \<Rightarrow> 'en list \<Rightarrow> 'im list \<Rightarrow> bool \<Rightarrow> ('op, 'en, 'im) TemplateData" where
  "NewTemplateData vipsVersion operations enumTypes imageTypes includeTest =
     \<lparr>VipsVersion = vipsVersion,
      Operations = operations,
      EnumTypes = enumTypes,
      ImageTypes = imageTypes,
      IncludeTest = includeTest\<rparr>"

section \<open>Effects\<close>

text \<open>
  An error is the text that its \<^verbatim>\<open>Error\<close> method returns, which is what the verb
  \<^verbatim>\<open>%v\<close> prints; \<open>None\<close> is the nil error.

  Everything the program does to the outside is an event of the trace, in the order in
  which it happens: a line given to the logger, and each call that leaves the two source
  files, with the answer it got. \<^verbatim>\<open>log.Fatalf\<close> prints its line and ends the process
  with status 1.
\<close>

type_synonym error = string

datatype event =
    Log_Printf string
  | Log_Fatalf string
  | Call_MkdirAll string "error option"
  | Call_ListFiles "error + string list"
  | Call_GenerateFile string string "error option"
  | Call_ExtractEmbeddedFS string "error option"
  | Call_NewOSTemplateLoader string "error option"
  | Call_NewFSTemplateLoader
  | Call_NewIntrospection bool
  | Call_GetVipsVersion
  | Call_DiscoverImageTypes
  | Call_DiscoverOperations
  | Call_DiscoverEnumTypes

text \<open>
  \<^verbatim>\<open>TemplateLoader\<close> is an interface; its implementations are outside the two source
  files, so a loader is a parameter: two functions over the state \<open>'w\<close> of the outside
  world. \<^verbatim>\<open>GenerateFile\<close> is handed the pointer to the template data, so it may write
  through it: it takes the value the pointer designates and returns the value it leaves
  there.
\<close>

record ('w, 'd) TemplateLoader =
  ListFiles :: "'w \<Rightarrow> (error + string list) \<times> 'w"
  GenerateFile :: "string \<Rightarrow> string \<Rightarrow> 'd \<Rightarrow> 'w \<Rightarrow> error option \<times> 'd \<times> 'w"

text \<open>
  The state that \<^verbatim>\<open>Generate\<close> runs in: the \<^verbatim>\<open>TemplateData\<close> that its pointer
  argument designates, the outside world, and the trace so far.
\<close>

record ('w, 'd) store =
  templateData :: 'd
  world :: 'w
  trace :: "event list"

section \<open>Generate\<close>

text \<open>
  The body of the loop over the template files. The two exits of the loop are the two
  results: \<open>Some\<close> of the error that \<^verbatim>\<open>Generate\<close> returns from inside the loop, or
  \<open>None\<close> when the loop ends. \<open>generatedFiles\<close> is the local slice of the same name.
\<close>

fun generate_loop ::
  "('w, ('op, 'en, 'im) TemplateData) TemplateLoader \<Rightarrow> string \<Rightarrow> string list \<Rightarrow> string list \<Rightarrow>
   ('w, ('op, 'en, 'im) TemplateData) store \<Rightarrow>
   error option \<times> string list \<times> ('w, ('op, 'en, 'im) TemplateData) store" where
  "generate_loop templateLoader outputDir [] generatedFiles s = (None, generatedFiles, s)"
| "generate_loop templateLoader outputDir (templateFile # rest) generatedFiles s =
     (let outputFile = Join [outputDir, TrimSuffix (Base templateFile) ''.tmpl''] in
      if \<not> IncludeTest (templateData s) \<and> HasSuffix (Base templateFile) ''_test.go.tmpl''
      then generate_loop templateLoader outputDir rest generatedFiles
             (s\<lparr>trace := trace s @
                  [Log_Printf (''Skipping test template: '' @ Base templateFile @
                               '' (use --include-test to generate)\<newline>'')]\<rparr>)
      else (case GenerateFile templateLoader templateFile outputFile (templateData s) (world s) of
              (Some err, d, w) \<Rightarrow>
                (Some (''failed to generate '' @ outputFile @ '': '' @ err),
                 generatedFiles,
                 s\<lparr>templateData := d, world := w,
                   trace := trace s @ [Call_GenerateFile templateFile outputFile (Some err)]\<rparr>)
            | (None, d, w) \<Rightarrow>
                generate_loop templateLoader outputDir rest (generatedFiles @ [outputFile])
                  (s\<lparr>templateData := d, world := w,
                     trace := trace s @ [Call_GenerateFile templateFile outputFile None]\<rparr>)))"

text \<open>
  \<^verbatim>\<open>Generate\<close>. Its first argument is \<^verbatim>\<open>os.MkdirAll\<close>, the part of the operating
  system it calls itself. The result is the error it returns and the state it leaves.
\<close>

definition Generate ::
  "(string \<Rightarrow> 'w \<Rightarrow> error option \<times> 'w) \<Rightarrow>
   ('w, ('op, 'en, 'im) TemplateData) TemplateLoader \<Rightarrow> string \<Rightarrow>
   ('w, ('op, 'en, 'im) TemplateData) store \<Rightarrow>
   error option \<times> ('w, ('op, 'en, 'im) TemplateData) store" where
  "Generate MkdirAll templateLoader outputDir s =
     (case MkdirAll outputDir (world s) of
        (Some err, w1) \<Rightarrow>
          (Some (''failed to create output directory: '' @ err),
           s\<lparr>world := w1, trace := trace s @ [Call_MkdirAll outputDir (Some err)]\<rparr>)
      | (None, w1) \<Rightarrow>
          (case ListFiles templateLoader w1 of
             (Inl err, w2) \<Rightarrow>
               (Some (''failed to list template files: '' @ err),
                s\<lparr>world := w2,
                  trace := trace s @ [Call_MkdirAll outputDir None, Call_ListFiles (Inl err)]\<rparr>)
           | (Inr templateFiles, w2) \<Rightarrow>
               (case generate_loop templateLoader outputDir templateFiles []
                       (s\<lparr>world := w2,
                          trace := trace s @
                            [Call_MkdirAll outputDir None, Call_ListFiles (Inr templateFiles)]\<rparr>) of
                  (Some err, generatedFiles, s') \<Rightarrow> (Some err, s')
                | (None, generatedFiles, s') \<Rightarrow>
                    (None,
                     s'\<lparr>trace := trace s' @
                          Log_Printf (''\<newline>Successfully generated files from templates: '' @
                                      Itoa (length generatedFiles) @ ''\<newline>'') #
                          map (\<lambda>file. Log_Printf (''  - '' @ file @ ''\<newline>'')) generatedFiles\<rparr>))))"

section \<open>The command\<close>

text \<open>
  \<^verbatim>\<open>flag.Parse\<close> belongs to the standard library. A command line that it accepts is
  given by what it found: for each flag the value set on the command line, or \<open>None\<close>
  when the flag does not occur, and the arguments left after the flags
  (\<^verbatim>\<open>flag.Args\<close>). A flag that does not occur has the default it was declared with.
\<close>

record cmdline =
  set_extract :: "bool option"
  set_extract_dir :: "string option"
  set_out :: "string option"
  set_templates :: "string option"
  set_debug :: "bool option"
  set_include_test :: "bool option"
  Args :: "string list"

definition extractTemplates :: "cmdline \<Rightarrow> bool" where
  "extractTemplates c = (case set_extract c of None \<Rightarrow> False | Some v \<Rightarrow> v)"

definition extractDir :: "cmdline \<Rightarrow> string" where
  "extractDir c = (case set_extract_dir c of None \<Rightarrow> ''./templates'' | Some v \<Rightarrow> v)"

definition outputDirFlag :: "cmdline \<Rightarrow> string" where
  "outputDirFlag c = (case set_out c of None \<Rightarrow> ''./vips'' | Some v \<Rightarrow> v)"

definition templateDirFlag :: "cmdline \<Rightarrow> string" where
  "templateDirFlag c = (case set_templates c of None \<Rightarrow> [] | Some v \<Rightarrow> v)"

definition isDebug :: "cmdline \<Rightarrow> bool" where
  "isDebug c = (case set_debug c of None \<Rightarrow> False | Some v \<Rightarrow> v)"

definition includeTest :: "cmdline \<Rightarrow> bool" where
  "includeTest c = (case set_include_test c of None \<Rightarrow> False | Some v \<Rightarrow> v)"

text \<open>The output directory, as \<^verbatim>\<open>main\<close> determines it.\<close>

definition outputDir :: "cmdline \<Rightarrow> string" where
  "outputDir c =
     (if outputDirFlag c \<noteq> [] then outputDirFlag c
      else if length (Args c) > 0 then hd (Args c)
      else ''./vips'')"

text \<open>
  What \<^verbatim>\<open>main\<close> calls outside the two source files: the operating system, the two
  constructors of template loaders and the extraction of the embedded templates (both
  are given the embedded file system and the function map, which are fixed), and the
  introspection of the native library.
\<close>

record ('w, 'op, 'en, 'im) platform =
  MkdirAll :: "string \<Rightarrow> 'w \<Rightarrow> error option \<times> 'w"
  ExtractEmbeddedFS :: "string \<Rightarrow> 'w \<Rightarrow> error option \<times> 'w"
  NewOSTemplateLoader ::
    "string \<Rightarrow> 'w \<Rightarrow> (error + ('w, ('op, 'en, 'im) TemplateData) TemplateLoader) \<times> 'w"
  NewFSTemplateLoader :: "('w, ('op, 'en, 'im) TemplateData) TemplateLoader"
  NewIntrospection :: "bool \<Rightarrow> 'w \<Rightarrow> 'w"
  GetVipsVersion :: "'w \<Rightarrow> string \<times> 'w"
  DiscoverImageTypes :: "'w \<Rightarrow> 'im list \<times> 'w"
  DiscoverOperations :: "'w \<Rightarrow> 'op list \<times> 'w"
  DiscoverEnumTypes :: "'w \<Rightarrow> 'en list \<times> 'w"

text \<open>The choice of the template source, up to the first fatal error.\<close>

definition choose_loader ::
  "('w, 'op, 'en, 'im) platform \<Rightarrow> cmdline \<Rightarrow> 'w \<Rightarrow>
   (error + ('w, ('op, 'en, 'im) TemplateData) TemplateLoader) \<times> 'w \<times> event list" where
  "choose_loader P c w =
     (if templateDirFlag c \<noteq> [] then
        (case NewOSTemplateLoader P (templateDirFlag c) w of
           (Inl err, w1) \<Rightarrow>
             (Inl err, w1,
              [Call_NewOSTemplateLoader (templateDirFlag c) (Some err),
               Log_Fatalf (''Failed to create template loader: '' @ err)])
         | (Inr loader, w1) \<Rightarrow>
             (Inr loader, w1,
              [Call_NewOSTemplateLoader (templateDirFlag c) None,
               Log_Printf (''Using templates from: '' @ templateDirFlag c @ ''\<newline>'')]))
      else
        (Inr (NewFSTemplateLoader P), w,
         [Call_NewFSTemplateLoader, Log_Printf ''Using embedded templates\<newline>'']))"

text \<open>
  \<^verbatim>\<open>main\<close>: the exit status of the process, the world it leaves and the trace of the
  run. Returning from \<^verbatim>\<open>main\<close> is status 0.
\<close>

definition main ::
  "('w, 'op, 'en, 'im) platform \<Rightarrow> cmdline \<Rightarrow> 'w \<Rightarrow> nat \<times> 'w \<times> event list" where
  "main P c w =
     (if extractTemplates c then
        (case ExtractEmbeddedFS P (extractDir c) w of
           (Some err, w1) \<Rightarrow>
             (1, w1,
              [Call_ExtractEmbeddedFS (extractDir c) (Some err),
               Log_Fatalf (''Failed to extract templates: '' @ err)])
         | (None, w1) \<Rightarrow>
             (0, w1,
              [Call_ExtractEmbeddedFS (extractDir c) None,
               Log_Printf (''Templates and static files extracted to: '' @ extractDir c @
                           ''\<newline>'')]))
      else
        (case choose_loader P c w of
           (Inl err, w1, t1) \<Rightarrow> (1, w1, t1)
         | (Inr loader, w1, t1) \<Rightarrow>
             (let w2 = NewIntrospection P (isDebug c) w1;
                  (vipsVersion, w3) = GetVipsVersion P w2;
                  (imageTypes, w4) = DiscoverImageTypes P w3;
                  (operations, w5) = DiscoverOperations P w4;
                  (enumTypes, w6) = DiscoverEnumTypes P w5;
                  t2 = t1 @
                    [Call_NewIntrospection (isDebug c), Call_GetVipsVersion,
                     Call_DiscoverImageTypes, Call_DiscoverOperations,
                     Log_Printf (''Extracted '' @ Itoa (length operations) @
                                 '' operations from GObject Introspection\<newline>''),
                     Call_DiscoverEnumTypes,
                     Log_Printf (''Discovered '' @ Itoa (length enumTypes) @
                                 '' enum types\<newline>'')];
                  td = NewTemplateData vipsVersion operations enumTypes imageTypes
                         (includeTest c)
              in case Generate (MkdirAll P) loader (outputDir c)
                        \<lparr>templateData = td, world = w6, trace = t2\<rparr> of
                   (Some err, s) \<Rightarrow>
                     (1, world s,
                      trace s @ [Log_Fatalf (''Failed to generate code: '' @ err)])
                 | (None, s) \<Rightarrow> (0, world s, trace s))))"

section \<open>A loader that writes files\<close>

text \<open>
  Modelled from the spec: the implementations of \<^verbatim>\<open>TemplateLoader\<close> are not among the
  source files. The specification gives a loader an ordered collection of template
  units, a rendering \<open>render(unit, TemplateData) -> bytes\<close> that fails with an error and
  has no side effect, and says that the rendered bytes are written to the output path.
  Here the world is the content of the files, by path; the template data is only read.
\<close>

definition fileLoader ::
  "string list \<Rightarrow> (string \<Rightarrow> 'd \<Rightarrow> error + string) \<Rightarrow> (string \<rightharpoonup> string, 'd) TemplateLoader" where
  "fileLoader units render =
     \<lparr>ListFiles = (\<lambda>w. (Inr units, w)),
      GenerateFile = (\<lambda>templateFile outputFile d w.
        (case render templateFile d of
           Inl err \<Rightarrow> (Some err, d, w)
         | Inr bytes \<Rightarrow> (None, d, w(outputFile \<mapsto> bytes))))\<rparr>"

text \<open>A directory creation that succeeds and leaves the files as they are.\<close>

definition mkdirAll_ok :: "string \<Rightarrow> 'w \<Rightarrow> error option \<times> 'w" where
  "mkdirAll_ok path w = (None, w)"

section \<open>Reading a trace\<close>

text \<open>
  The calls of \<^verbatim>\<open>GenerateFile\<close> in a trace, in order: the template file, the output
  file and the answer; the output files that were generated without error for one
  template file; and the events in which the native registry is initialised or queried.
\<close>

fun generate_calls :: "event list \<Rightarrow> (string \<times> string \<times> error option) list" where
  "generate_calls [] = []"
| "generate_calls (Call_GenerateFile templateFile outputFile r # es) =
     (templateFile, outputFile, r) # generate_calls es"
| "generate_calls (e # es) = generate_calls es"

definition written_for :: "string \<Rightarrow> event list \<Rightarrow> string list" where
  "written_for templateFile es =
     map (\<lambda>(t, p, r). p) (filter (\<lambda>(t, p, r). t = templateFile \<and> r = None) (generate_calls es))"

fun registry_event :: "event \<Rightarrow> bool" where
  "registry_event (Call_NewIntrospection d) = True"
| "registry_event Call_GetVipsVersion = True"
| "registry_event Call_DiscoverImageTypes = True"
| "registry_event Call_DiscoverOperations = True"
| "registry_event Call_DiscoverEnumTypes = True"
| "registry_event e = False"

text \<open>
  The three things the loop computes from the name of a template file: its output file,
  whether it is a test template, and the notice logged when it is skipped.
\<close>

definition output_file :: "string \<Rightarrow> string \<Rightarrow> string" where
  "output_file dir templateFile = Join [dir, TrimSuffix (Base templateFile) ''.tmpl'']"

definition test_template :: "string \<Rightarrow> bool" where
  "test_template templateFile = HasSuffix (Base templateFile) ''_test.go.tmpl''"

definition skip_notice :: "string \<Rightarrow> event" where
  "skip_notice templateFile =
     Log_Printf (''Skipping test template: '' @ Base templateFile @
                 '' (use --include-test to generate)\<newline>'')"

text \<open>A loader that only reads the template data it is given.\<close>

definition read_only :: "('w, 'd) TemplateLoader \<Rightarrow> bool" where
  "read_only L = (\<forall>templateFile outputFile d w.
     fst (snd (GenerateFile L templateFile outputFile d w)) = d)"

text \<open>
  A template file is skipped when the template data does not include the tests and the
  file is a test template; \<open>unit_event\<close> is the one event that a template file leaves
  in the trace of a loop that goes past it: the notice, or the call that generated it.
\<close>

definition skipped :: "('op, 'en, 'im) TemplateData \<Rightarrow> string \<Rightarrow> bool" where
  "skipped d templateFile = (\<not> IncludeTest d \<and> test_template templateFile)"

definition unit_event :: "('op, 'en, 'im) TemplateData \<Rightarrow> string \<Rightarrow> string \<Rightarrow> event" where
  "unit_event d dir templateFile =
     (if skipped d templateFile then skip_notice templateFile
      else Call_GenerateFile templateFile (output_file dir templateFile) None)"

text \<open>The lines that \<^verbatim>\<open>Generate\<close> logs after the loop.\<close>

definition success_log :: "string list \<Rightarrow> event list" where
  "success_log generatedFiles =
     Log_Printf (''\<newline>Successfully generated files from templates: '' @
                 Itoa (length generatedFiles) @ ''\<newline>'') #
     map (\<lambda>file. Log_Printf (''  - '' @ file @ ''\<newline>'')) generatedFiles"

definition unit_step :: "string \<Rightarrow> string \<Rightarrow> event \<Rightarrow> bool" where
  "unit_step dir templateFile e =
     (e = skip_notice templateFile \<and> test_template templateFile \<or>
      e = Call_GenerateFile templateFile (output_file dir templateFile) None)"

definition paths :: "(string \<times> string \<times> error option) list \<Rightarrow> string list" where
  "paths calls = map (\<lambda>(t, p, r). p) calls"

text \<open>The calls that returned an error.\<close>

fun failed_call :: "event \<Rightarrow> bool" where
  "failed_call (Call_MkdirAll path (Some err)) = True"
| "failed_call (Call_ListFiles (Inl err)) = True"
| "failed_call (Call_GenerateFile templateFile outputFile (Some err)) = True"
| "failed_call (Call_ExtractEmbeddedFS dir (Some err)) = True"
| "failed_call (Call_NewOSTemplateLoader dir (Some err)) = True"
| "failed_call e = False"

section \<open>Sample inputs\<close>

text \<open>
  Concrete inputs on which the theorems below are instantiated: a template data, a
  rendering that fails on one chosen template file, a run of \<^verbatim>\<open>Generate\<close> on an
  empty file tree with an empty trace, a platform and a command line without flags.
\<close>

definition sample_data :: "bool \<Rightarrow> (string, string, string) TemplateData" where
  "sample_data test = NewTemplateData ''8.18.0'' [''resize''] [''Kernel''] [''VipsImage''] test"

definition sample_render :: "string \<Rightarrow> string \<Rightarrow> (string, string, string) TemplateData \<Rightarrow> error + string" where
  "sample_render bad templateFile d =
     (if templateFile = bad then Inl ''boom''
      else Inr (''// '' @ templateFile @ '' for libvips '' @ VipsVersion d))"

definition run_Generate ::
  "(string \<rightharpoonup> string, ('op, 'en, 'im) TemplateData) TemplateLoader \<Rightarrow> string \<Rightarrow>
   ('op, 'en, 'im) TemplateData \<Rightarrow>
   error option \<times> (string \<rightharpoonup> string, ('op, 'en, 'im) TemplateData) store" where
  "run_Generate L dir d =
     Generate mkdirAll_ok L dir \<lparr>templateData = d, world = Map.empty, trace = []\<rparr>"

definition sample_run ::
  "string list \<Rightarrow> string \<Rightarrow> bool \<Rightarrow>
   error option \<times> (string \<rightharpoonup> string, (string, string, string) TemplateData) store" where
  "sample_run units bad test =
     run_Generate (fileLoader units (sample_render bad)) ''out'' (sample_data test)"

definition sample_platform :: "(string \<rightharpoonup> string, string, string, string) platform" where
  "sample_platform =
     \<lparr>MkdirAll = mkdirAll_ok,
      ExtractEmbeddedFS = (\<lambda>dir w. (None, w(dir @ ''/vips.go.tmpl'' \<mapsto> ''package vips''))),
      NewOSTemplateLoader = (\<lambda>dir w. (Inl (''open '' @ dir @ '': no such file or directory''), w)),
      NewFSTemplateLoader = fileLoader [''vips.go.tmpl'', ''vips_test.go.tmpl''] (sample_render []),
      NewIntrospection = (\<lambda>debug w. w),
      GetVipsVersion = (\<lambda>w. (''8.18.0'', w)),
      DiscoverImageTypes = (\<lambda>w. ([''VipsImage''], w)),
      DiscoverOperations = (\<lambda>w. ([''resize''], w)),
      DiscoverEnumTypes = (\<lambda>w. ([''Kernel''], w))\<rparr>"

definition sample_cmdline :: cmdline where
  "sample_cmdline =
     \<lparr>set_extract = None, set_extract_dir = None, set_out = None, set_templates = None,
      set_debug = None, set_include_test = None, Args = []\<rparr>"

text \<open>
  A loader that writes through the pointer it is handed: each call of its
  \<^verbatim>\<open>GenerateFile\<close> stores another version string in the template data.
\<close>

definition versionWriter ::
  "string list \<Rightarrow> (string \<rightharpoonup> string, ('op, 'en, 'im) TemplateData) TemplateLoader" where
  "versionWriter units =
     \<lparr>ListFiles = (\<lambda>w. (Inr units, w)),
      GenerateFile = (\<lambda>templateFile outputFile d w.
        (None, d\<lparr>VipsVersion := ''0.0.0''\<rparr>, w(outputFile \<mapsto> templateFile)))\<rparr>"

section \<open>The loop, one template file at a time\<close>

declare generate_loop.simps [simp del]

lemma generate_calls_append:
  "generate_calls (xs @ ys) = generate_calls xs @ generate_calls ys"
  by (induction xs rule: generate_calls.induct) simp_all

lemma read_onlyD:
  "read_only L \<Longrightarrow> GenerateFile L t p d w = (r, d', w') \<Longrightarrow> d' = d"
  unfolding read_only_def by (metis fst_conv snd_conv)

lemma generate_loop_skip:
  "skipped (templateData s) t \<Longrightarrow>
   generate_loop L dir (t # tfs) gf s =
     generate_loop L dir tfs gf (s\<lparr>trace := trace s @ [skip_notice t]\<rparr>)"
  by (simp add: generate_loop.simps skipped_def test_template_def skip_notice_def Let_def)

lemma generate_loop_fail:
  "\<not> skipped (templateData s) t \<Longrightarrow>
   GenerateFile L t (output_file dir t) (templateData s) (world s) = (Some err, d, w) \<Longrightarrow>
   generate_loop L dir (t # tfs) gf s =
     (Some (''failed to generate '' @ output_file dir t @ '': '' @ err), gf,
      s\<lparr>templateData := d, world := w,
        trace := trace s @ [Call_GenerateFile t (output_file dir t) (Some err)]\<rparr>)"
  by (auto simp: generate_loop.simps skipped_def test_template_def output_file_def Let_def)

lemma generate_loop_ok:
  "\<not> skipped (templateData s) t \<Longrightarrow>
   GenerateFile L t (output_file dir t) (templateData s) (world s) = (None, d, w) \<Longrightarrow>
   generate_loop L dir (t # tfs) gf s =
     generate_loop L dir tfs (gf @ [output_file dir t])
       (s\<lparr>templateData := d, world := w,
          trace := trace s @ [Call_GenerateFile t (output_file dir t) None]\<rparr>)"
  by (auto simp: generate_loop.simps skipped_def test_template_def output_file_def Let_def)

lemma loop_success:
  assumes "read_only L"
  shows "generate_loop L dir tfs gf s = (None, gf', s') \<Longrightarrow>
     templateData s' = templateData s \<and>
     gf' = gf @ map (output_file dir) (filter (\<lambda>t. \<not> skipped (templateData s) t) tfs) \<and>
     trace s' = trace s @ map (unit_event (templateData s) dir) tfs"
proof (induction tfs arbitrary: gf s)
  case Nil
  then show ?case by (simp add: generate_loop.simps)
next
  case (Cons t tfs)
  show ?case
  proof (cases "skipped (templateData s) t")
    case True
    with Cons.prems have
      "generate_loop L dir tfs gf (s\<lparr>trace := trace s @ [skip_notice t]\<rparr>) = (None, gf', s')"
      by (simp add: generate_loop_skip)
    from Cons.IH [OF this] True show ?thesis
      by (simp add: unit_event_def)
  next
    case False
    obtain r d w where g:
      "GenerateFile L t (output_file dir t) (templateData s) (world s) = (r, d, w)"
      by (cases "GenerateFile L t (output_file dir t) (templateData s) (world s)") auto
    from read_onlyD [OF assms g] have d: "d = templateData s" .
    from Cons.prems False g have r: "r = None"
      by (cases r) (simp_all add: generate_loop_fail)
    with Cons.prems False g have
      "generate_loop L dir tfs (gf @ [output_file dir t])
         (s\<lparr>templateData := d, world := w,
            trace := trace s @ [Call_GenerateFile t (output_file dir t) None]\<rparr>) = (None, gf', s')"
      by (simp add: generate_loop_ok)
    from Cons.IH [OF this] False d show ?thesis
      by (simp add: unit_event_def)
  qed
qed

lemma loop_failure:
  assumes "read_only L"
  shows "generate_loop L dir tfs gf s = (Some e, gf', s') \<Longrightarrow>
     \<exists>pre t post err. tfs = pre @ t # post \<and> \<not> skipped (templateData s) t \<and>
       e = ''failed to generate '' @ output_file dir t @ '': '' @ err \<and>
       templateData s' = templateData s \<and>
       gf' = gf @ map (output_file dir) (filter (\<lambda>t. \<not> skipped (templateData s) t) pre) \<and>
       trace s' = trace s @ map (unit_event (templateData s) dir) pre @
                  [Call_GenerateFile t (output_file dir t) (Some err)]"
proof (induction tfs arbitrary: gf s)
  case Nil
  then show ?case by (simp add: generate_loop.simps)
next
  case (Cons t tfs)
  show ?case
  proof (cases "skipped (templateData s) t")
    case True
    with Cons.prems have
      "generate_loop L dir tfs gf (s\<lparr>trace := trace s @ [skip_notice t]\<rparr>) = (Some e, gf', s')"
      by (simp add: generate_loop_skip)
    from Cons.IH [OF this] obtain pre u post err where
      "tfs = pre @ u # post" "\<not> skipped (templateData s) u"
      "e = ''failed to generate '' @ output_file dir u @ '': '' @ err"
      "templateData s' = templateData s"
      "gf' = gf @ map (output_file dir) (filter (\<lambda>t. \<not> skipped (templateData s) t) pre)"
      "trace s' = trace s @ [skip_notice t] @ map (unit_event (templateData s) dir) pre @
                  [Call_GenerateFile u (output_file dir u) (Some err)]"
      by auto
    with True have
      "t # tfs = (t # pre) @ u # post \<and> \<not> skipped (templateData s) u \<and>
       e = ''failed to generate '' @ output_file dir u @ '': '' @ err \<and>
       templateData s' = templateData s \<and>
       gf' = gf @ map (output_file dir) (filter (\<lambda>t. \<not> skipped (templateData s) t) (t # pre)) \<and>
       trace s' = trace s @ map (unit_event (templateData s) dir) (t # pre) @
                  [Call_GenerateFile u (output_file dir u) (Some err)]"
      by (simp add: unit_event_def)
    then show ?thesis by blast
  next
    case False
    obtain r d w where g:
      "GenerateFile L t (output_file dir t) (templateData s) (world s) = (r, d, w)"
      by (cases "GenerateFile L t (output_file dir t) (templateData s) (world s)") auto
    from read_onlyD [OF assms g] have d: "d = templateData s" .
    show ?thesis
    proof (cases r)
      case None
      with Cons.prems False g have
        "generate_loop L dir tfs (gf @ [output_file dir t])
           (s\<lparr>templateData := d, world := w,
              trace := trace s @ [Call_GenerateFile t (output_file dir t) None]\<rparr>) = (Some e, gf', s')"
        by (simp add: generate_loop_ok)
      from Cons.IH [OF this] d obtain pre u post err where
        "tfs = pre @ u # post" "\<not> skipped (templateData s) u"
        "e = ''failed to generate '' @ output_file dir u @ '': '' @ err"
        "templateData s' = templateData s"
        "gf' = gf @ [output_file dir t] @
               map (output_file dir) (filter (\<lambda>t. \<not> skipped (templateData s) t) pre)"
        "trace s' = trace s @ [Call_GenerateFile t (output_file dir t) None] @
                    map (unit_event (templateData s) dir) pre @
                    [Call_GenerateFile u (output_file dir u) (Some err)]"
        by auto
      with False have
        "t # tfs = (t # pre) @ u # post \<and> \<not> skipped (templateData s) u \<and>
         e = ''failed to generate '' @ output_file dir u @ '': '' @ err \<and>
         templateData s' = templateData s \<and>
         gf' = gf @ map (output_file dir) (filter (\<lambda>t. \<not> skipped (templateData s) t) (t # pre)) \<and>
         trace s' = trace s @ map (unit_event (templateData s) dir) (t # pre) @
                    [Call_GenerateFile u (output_file dir u) (Some err)]"
        by (simp add: unit_event_def)
      then show ?thesis by blast
    next
      case (Some err)
      with g have g': "GenerateFile L t (output_file dir t) (templateData s) (world s) = (Some err, d, w)"
        by simp
      from Cons.prems d have
        "t # tfs = [] @ t # tfs \<and> \<not> skipped (templateData s) t \<and>
         e = ''failed to generate '' @ output_file dir t @ '': '' @ err \<and>
         templateData s' = templateData s \<and>
         gf' = gf @ map (output_file dir) (filter (\<lambda>t. \<not> skipped (templateData s) t) []) \<and>
         trace s' = trace s @ map (unit_event (templateData s) dir) [] @
                    [Call_GenerateFile t (output_file dir t) (Some err)]"
        unfolding generate_loop_fail [OF False g'] using False by auto
      then show ?thesis by blast
    qed
  qed
qed

section \<open>Runs of Generate\<close>


lemma generate_calls_skip_notice [simp]: "generate_calls (skip_notice t # es) = generate_calls es"
  by (simp add: skip_notice_def)

lemma loop_general:
  "generate_loop L dir tfs gf s = (r, gf', s') \<Longrightarrow>
   (r = None \<and>
      (\<exists>evs. list_all2 (unit_step dir) tfs evs \<and> trace s' = trace s @ evs \<and>
             gf' = gf @ paths (generate_calls evs))) \<or>
   (\<exists>pre t post err evs. tfs = pre @ t # post \<and> list_all2 (unit_step dir) pre evs \<and>
      r = Some (''failed to generate '' @ output_file dir t @ '': '' @ err) \<and>
      trace s' = trace s @ evs @ [Call_GenerateFile t (output_file dir t) (Some err)] \<and>
      gf' = gf @ paths (generate_calls evs))"
proof (induction tfs arbitrary: gf s)
  case Nil
  then show ?case by (simp add: generate_loop.simps paths_def)
next
  case (Cons t tfs)
  have skip: "unit_step dir t (skip_notice t)" if "skipped (templateData s) t"
    using that by (simp add: unit_step_def skipped_def)
  have call: "unit_step dir t (Call_GenerateFile t (output_file dir t) None)"
    by (simp add: unit_step_def)
  show ?case
  proof (cases "skipped (templateData s) t")
    case True
    with Cons.prems have
      "generate_loop L dir tfs gf (s\<lparr>trace := trace s @ [skip_notice t]\<rparr>) = (r, gf', s')"
      by (simp add: generate_loop_skip)
    from Cons.IH [OF this] show ?thesis
    proof (elim disjE conjE exE)
      fix evs
      assume "r = None" "list_all2 (unit_step dir) tfs evs"
        "trace s' = trace (s\<lparr>trace := trace s @ [skip_notice t]\<rparr>) @ evs"
        "gf' = gf @ paths (generate_calls evs)"
      with skip [OF True] have "r = None \<and> list_all2 (unit_step dir) (t # tfs) (skip_notice t # evs) \<and>
        trace s' = trace s @ skip_notice t # evs \<and>
        gf' = gf @ paths (generate_calls (skip_notice t # evs))"
        by simp
      then show ?thesis by blast
    next
      fix pre u post err evs
      assume "tfs = pre @ u # post" "list_all2 (unit_step dir) pre evs"
        "r = Some (''failed to generate '' @ output_file dir u @ '': '' @ err)"
        "trace s' = trace (s\<lparr>trace := trace s @ [skip_notice t]\<rparr>) @ evs @
                    [Call_GenerateFile u (output_file dir u) (Some err)]"
        "gf' = gf @ paths (generate_calls evs)"
      with skip [OF True] have "t # tfs = (t # pre) @ u # post \<and>
        list_all2 (unit_step dir) (t # pre) (skip_notice t # evs) \<and>
        r = Some (''failed to generate '' @ output_file dir u @ '': '' @ err) \<and>
        trace s' = trace s @ (skip_notice t # evs) @
                   [Call_GenerateFile u (output_file dir u) (Some err)] \<and>
        gf' = gf @ paths (generate_calls (skip_notice t # evs))"
        by simp
      then show ?thesis by blast
    qed
  next
    case False
    obtain a d w where g:
      "GenerateFile L t (output_file dir t) (templateData s) (world s) = (a, d, w)"
      by (cases "GenerateFile L t (output_file dir t) (templateData s) (world s)") auto
    show ?thesis
    proof (cases a)
      case None
      with Cons.prems False g have
        "generate_loop L dir tfs (gf @ [output_file dir t])
           (s\<lparr>templateData := d, world := w,
              trace := trace s @ [Call_GenerateFile t (output_file dir t) None]\<rparr>) = (r, gf', s')"
        by (simp add: generate_loop_ok)
      from Cons.IH [OF this] show ?thesis
      proof (elim disjE conjE exE)
        fix evs
        assume "r = None" "list_all2 (unit_step dir) tfs evs"
          "trace s' = trace (s\<lparr>templateData := d, world := w,
              trace := trace s @ [Call_GenerateFile t (output_file dir t) None]\<rparr>) @ evs"
          "gf' = (gf @ [output_file dir t]) @ paths (generate_calls evs)"
        with call have "r = None \<and>
          list_all2 (unit_step dir) (t # tfs) (Call_GenerateFile t (output_file dir t) None # evs) \<and>
          trace s' = trace s @ Call_GenerateFile t (output_file dir t) None # evs \<and>
          gf' = gf @ paths (generate_calls (Call_GenerateFile t (output_file dir t) None # evs))"
          by (simp add: paths_def)
        then show ?thesis by blast
      next
        fix pre u post err evs
        assume "tfs = pre @ u # post" "list_all2 (unit_step dir) pre evs"
          "r = Some (''failed to generate '' @ output_file dir u @ '': '' @ err)"
          "trace s' = trace (s\<lparr>templateData := d, world := w,
              trace := trace s @ [Call_GenerateFile t (output_file dir t) None]\<rparr>) @ evs @
                      [Call_GenerateFile u (output_file dir u) (Some err)]"
          "gf' = (gf @ [output_file dir t]) @ paths (generate_calls evs)"
        with call have "t # tfs = (t # pre) @ u # post \<and>
          list_all2 (unit_step dir) (t # pre) (Call_GenerateFile t (output_file dir t) None # evs) \<and>
          r = Some (''failed to generate '' @ output_file dir u @ '': '' @ err) \<and>
          trace s' = trace s @ (Call_GenerateFile t (output_file dir t) None # evs) @
                     [Call_GenerateFile u (output_file dir u) (Some err)] \<and>
          gf' = gf @ paths (generate_calls (Call_GenerateFile t (output_file dir t) None # evs))"
          by (simp add: paths_def)
        then show ?thesis by blast
      qed
    next
      case (Some err)
      with Cons.prems False g have
        "t # tfs = [] @ t # tfs \<and> list_all2 (unit_step dir) [] [] \<and>
         r = Some (''failed to generate '' @ output_file dir t @ '': '' @ err) \<and>
         trace s' = trace s @ [] @ [Call_GenerateFile t (output_file dir t) (Some err)] \<and>
         gf' = gf @ paths (generate_calls [])"
        by (auto simp: generate_loop_fail paths_def)
      then show ?thesis by blast
    qed
  qed
qed

lemma Generate_run:
  assumes run: "Generate mk L dir \<lparr>templateData = d, world = w, trace = []\<rparr> = (r, s')"
  shows
    "(\<exists>err. r = Some (''failed to create output directory: '' @ err) \<and>
            trace s' = [Call_MkdirAll dir (Some err)]) \<or>
     (\<exists>err. r = Some (''failed to list template files: '' @ err) \<and>
            trace s' = [Call_MkdirAll dir None, Call_ListFiles (Inl err)]) \<or>
     (\<exists>pre t post err evs.
            r = Some (''failed to generate '' @ output_file dir t @ '': '' @ err) \<and>
            list_all2 (unit_step dir) pre evs \<and>
            trace s' = Call_MkdirAll dir None # Call_ListFiles (Inr (pre @ t # post)) #
                       evs @ [Call_GenerateFile t (output_file dir t) (Some err)]) \<or>
     (\<exists>tfs evs. r = None \<and> list_all2 (unit_step dir) tfs evs \<and>
            trace s' = Call_MkdirAll dir None # Call_ListFiles (Inr tfs) #
                       evs @ success_log (paths (generate_calls evs)))"
proof -
  obtain m w1 where mk: "mk dir w = (m, w1)" by (cases "mk dir w") auto
  show ?thesis
  proof (cases m)
    case (Some err)
    with mk run show ?thesis by (auto simp: Generate_def)
  next
    case None
    obtain l w2 where ls: "ListFiles L w1 = (l, w2)" by (cases "ListFiles L w1") auto
    show ?thesis
    proof (cases l)
      case (Inl err)
      with None mk ls run show ?thesis by (auto simp: Generate_def)
    next
      case (Inr tfs)
      define s0 :: "('a, ('b, 'c, 'd) TemplateData) store" where
        "s0 = \<lparr>templateData = d, world = w2,
               trace = [Call_MkdirAll dir None, Call_ListFiles (Inr tfs)]\<rparr>"
      obtain e gf s1 where lp: "generate_loop L dir tfs [] s0 = (e, gf, s1)"
        by (cases "generate_loop L dir tfs [] s0") auto
      from loop_general [OF lp] show ?thesis
      proof (elim disjE conjE exE)
        fix evs
        assume a: "e = None" "list_all2 (unit_step dir) tfs evs"
          "trace s1 = trace s0 @ evs" "gf = [] @ paths (generate_calls evs)"
        with None mk ls Inr lp run
        have "r = None" and "s' = s1\<lparr>trace := trace s1 @ success_log gf\<rparr>"
          by (auto simp: Generate_def s0_def success_log_def)
        with a have "r = None \<and> list_all2 (unit_step dir) tfs evs \<and>
            trace s' = Call_MkdirAll dir None # Call_ListFiles (Inr tfs) #
                       evs @ success_log (paths (generate_calls evs))"
          by (simp add: s0_def)
        then show ?thesis by blast
      next
        fix pre t post err evs
        assume a: "tfs = pre @ t # post" "list_all2 (unit_step dir) pre evs"
          "e = Some (''failed to generate '' @ output_file dir t @ '': '' @ err)"
          "trace s1 = trace s0 @ evs @ [Call_GenerateFile t (output_file dir t) (Some err)]"
        with None mk ls Inr lp run
        have "r = e" and "s' = s1"
          by (auto simp: Generate_def s0_def)
        with a have "r = Some (''failed to generate '' @ output_file dir t @ '': '' @ err) \<and>
            list_all2 (unit_step dir) pre evs \<and>
            trace s' = Call_MkdirAll dir None # Call_ListFiles (Inr (pre @ t # post)) #
                       evs @ [Call_GenerateFile t (output_file dir t) (Some err)]"
          by (simp add: s0_def)
        then show ?thesis by blast
      qed
    qed
  qed
qed

lemma unit_steps_events:
  "list_all2 (unit_step dir) us evs \<Longrightarrow> e \<in> set evs \<Longrightarrow>
   \<exists>u. u \<in> set us \<and> (e = skip_notice u \<or> e = Call_GenerateFile u (output_file dir u) None)"
  by (induction us evs rule: list_all2_induct) (auto simp: unit_step_def)


lemma unit_steps_not_failed:
  "list_all2 (unit_step dir) us evs \<Longrightarrow> \<not> list_ex failed_call evs"
  by (auto simp: list_ex_iff skip_notice_def dest!: unit_steps_events)

lemma unit_steps_calls:
  "list_all2 (unit_step dir) us evs \<Longrightarrow>
   \<exists>vs. subseq vs us \<and> generate_calls evs = map (\<lambda>u. (u, output_file dir u, None)) vs"
proof (induction us evs rule: list_all2_induct)
  case Nil
  then show ?case by simp
next
  case (Cons u us e evs)
  then obtain vs where vs: "subseq vs us"
    "generate_calls evs = map (\<lambda>u. (u, output_file dir u, None)) vs" by blast
  from Cons.hyps(1) show ?case
    unfolding unit_step_def
  proof (elim disjE conjE)
    assume "e = skip_notice u"
    with vs have "subseq vs (u # us) \<and>
      generate_calls (e # evs) = map (\<lambda>u. (u, output_file dir u, None)) vs"
      by (simp add: list_emb_Cons)
    then show ?thesis by blast
  next
    assume "e = Call_GenerateFile u (output_file dir u) None"
    with vs have "subseq (u # vs) (u # us) \<and>
      generate_calls (e # evs) = map (\<lambda>u. (u, output_file dir u, None)) (u # vs)" by simp
    then show ?thesis by blast
  qed
qed

lemma generate_calls_success_log [simp]: "generate_calls (success_log gf) = []"
  by (induction gf) (simp_all add: success_log_def)

lemma success_log_not_listing [simp]: "Call_ListFiles x \<notin> set (success_log gf)"
  by (auto simp: success_log_def)

lemma success_log_not_failed [simp]: "\<not> list_ex failed_call (success_log gf)"
  by (auto simp: success_log_def list_ex_iff)


section \<open>The claims\<close>

lemma fileLoader_read_only: "read_only (fileLoader units render)"
  by (simp add: read_only_def fileLoader_def split: sum.splits)

lemma loop_templateData:
  assumes "read_only L"
  shows "templateData (snd (snd (generate_loop L dir tfs gf s))) = templateData s"
proof -
  obtain r gf' s' where lp: "generate_loop L dir tfs gf s = (r, gf', s')"
    by (cases "generate_loop L dir tfs gf s") auto
  show ?thesis
  proof (cases r)
    case None
    with loop_success [OF assms] lp show ?thesis by fastforce
  next
    case (Some e)
    with loop_failure [OF assms] lp show ?thesis by fastforce
  qed
qed

text \<open>
  C5. \<^verbatim>\<open>NewTemplateData\<close> is a function of its five arguments alone: it reads and
  changes nothing else, each field of its result is the argument of that name, and two
  calls give equal results exactly when their arguments are equal.
\<close>

theorem NewTemplateData_stable:
  "VipsVersion (NewTemplateData v ops ens ims t) = v \<and>
   Operations (NewTemplateData v ops ens ims t) = ops \<and>
   EnumTypes (NewTemplateData v ops ens ims t) = ens \<and>
   ImageTypes (NewTemplateData v ops ens ims t) = ims \<and>
   IncludeTest (NewTemplateData v ops ens ims t) = t \<and>
   (NewTemplateData v ops ens ims t = NewTemplateData v' ops' ens' ims' t' \<longleftrightarrow>
      v = v' \<and> ops = ops' \<and> ens = ens' \<and> ims = ims' \<and> t = t')"
  by (simp add: NewTemplateData_def)

text \<open>
  C7. \<^verbatim>\<open>Generate\<close> never writes through its pointer to the template data: with a
  loader that only reads the data, the \<^verbatim>\<open>TemplateData\<close> it designates is, field for
  field, the same when \<^verbatim>\<open>Generate\<close> returns as before the call, whether it returns
  an error or not.
\<close>

theorem Generate_keeps_TemplateData:
  assumes "read_only L"
  shows "templateData (snd (Generate mk L dir s)) = templateData s"
proof -
  obtain m w1 where mk: "mk dir (world s) = (m, w1)" by (cases "mk dir (world s)") auto
  show ?thesis
  proof (cases m)
    case (Some err)
    with mk show ?thesis by (simp add: Generate_def)
  next
    case None
    obtain l w2 where ls: "ListFiles L w1 = (l, w2)" by (cases "ListFiles L w1") auto
    show ?thesis
    proof (cases l)
      case (Inl err)
      with None mk ls show ?thesis by (simp add: Generate_def)
    next
      case (Inr tfs)
      define s0 where "s0 = s\<lparr>world := w2,
        trace := trace s @ [Call_MkdirAll dir None, Call_ListFiles (Inr tfs)]\<rparr>"
      obtain e gf s1 where lp: "generate_loop L dir tfs [] s0 = (e, gf, s1)"
        by (cases "generate_loop L dir tfs [] s0") auto
      from loop_templateData [OF assms, of dir tfs "[]" s0] lp
      have "templateData s1 = templateData s" by (simp add: s0_def)
      with None mk ls Inr lp show ?thesis
        by (cases e) (simp_all add: Generate_def s0_def)
    qed
  qed
qed

theorem Generate_keeps_TemplateData_witness:
  "read_only (fileLoader [''vips.go.tmpl'', ''image.go.tmpl''] (sample_render ''image.go.tmpl'')) \<and>
   templateData (snd (run_Generate
      (fileLoader [''vips.go.tmpl'', ''image.go.tmpl''] (sample_render ''image.go.tmpl''))
      ''out'' (sample_data True))) = sample_data True \<and>
   fst (run_Generate
      (fileLoader [''vips.go.tmpl'', ''image.go.tmpl''] (sample_render ''image.go.tmpl''))
      ''out'' (sample_data True)) = Some ''failed to generate out/image.go: boom''"
proof -
  have ro: "read_only (fileLoader [''vips.go.tmpl'', ''image.go.tmpl''] (sample_render ''image.go.tmpl''))"
    by (rule fileLoader_read_only)
  have r: "fst (run_Generate
      (fileLoader [''vips.go.tmpl'', ''image.go.tmpl''] (sample_render ''image.go.tmpl''))
      ''out'' (sample_data True)) = Some ''failed to generate out/image.go: boom''"
    by code_simp
  from ro r Generate_keeps_TemplateData [OF ro, of mkdirAll_ok "''out''"
      "\<lparr>templateData = sample_data True, world = Map.empty, trace = []\<rparr>"]
  show ?thesis by (simp add: run_Generate_def)
qed

text \<open>
  C9. The output directory: a non-empty value of the flag \<^verbatim>\<open>-out\<close> is used;
  otherwise the first positional argument, if there is one; otherwise \<^verbatim>\<open>./vips\<close>.
  The flag defaults to \<^verbatim>\<open>./vips\<close>, so its value is empty, and a positional
  argument can be used, only when the command line sets it to the empty string.
\<close>

theorem outputDir_precedence:
  "(outputDirFlag c \<noteq> [] \<longrightarrow> outputDir c = outputDirFlag c) \<and>
   (outputDirFlag c = [] \<and> Args c \<noteq> [] \<longrightarrow> outputDir c = hd (Args c)) \<and>
   (outputDirFlag c = [] \<and> Args c = [] \<longrightarrow> outputDir c = ''./vips'') \<and>
   (set_out c = None \<longrightarrow> outputDir c = ''./vips'') \<and>
   (outputDirFlag c = [] \<longleftrightarrow> set_out c = Some [])"
  by (auto simp: outputDir_def outputDirFlag_def split: option.splits)

theorem outputDir_precedence_witness:
  "outputDirFlag (sample_cmdline\<lparr>set_out := Some ''gen'', Args := [''pos'']\<rparr>) \<noteq> [] \<and>
   outputDir (sample_cmdline\<lparr>set_out := Some ''gen'', Args := [''pos'']\<rparr>) = ''gen'' \<and>
   outputDirFlag (sample_cmdline\<lparr>set_out := Some [], Args := [''pos'']\<rparr>) = [] \<and>
   outputDir (sample_cmdline\<lparr>set_out := Some [], Args := [''pos'']\<rparr>) = ''pos'' \<and>
   outputDirFlag (sample_cmdline\<lparr>set_out := Some []\<rparr>) = [] \<and>
   Args (sample_cmdline\<lparr>set_out := Some []\<rparr>) = [] \<and>
   outputDir (sample_cmdline\<lparr>set_out := Some []\<rparr>) = ''./vips'' \<and>
   set_out (sample_cmdline\<lparr>Args := [''pos'']\<rparr>) = None \<and>
   outputDir (sample_cmdline\<lparr>Args := [''pos'']\<rparr>) = ''./vips''"
  using outputDir_precedence [of "sample_cmdline\<lparr>set_out := Some ''gen'', Args := [''pos'']\<rparr>"]
    outputDir_precedence [of "sample_cmdline\<lparr>set_out := Some [], Args := [''pos'']\<rparr>"]
    outputDir_precedence [of "sample_cmdline\<lparr>set_out := Some []\<rparr>"]
    outputDir_precedence [of "sample_cmdline\<lparr>Args := [''pos'']\<rparr>"]
  by (simp add: sample_cmdline_def outputDirFlag_def)

text \<open>
  C6. With the flag \<^verbatim>\<open>-extract\<close> set, \<^verbatim>\<open>main\<close> calls the extraction of the
  embedded templates into the extraction directory, logs one line and ends: with status
  0 when the extraction returned no error, with status 1 otherwise. The trace has these
  two events only, so the native registry is neither initialised nor queried.
\<close>

theorem extract_mode:
  assumes "extractTemplates c"
    and "ExtractEmbeddedFS P (extractDir c) w = (r, w1)"
  shows "\<exists>status line. main P c w = (status, w1, [Call_ExtractEmbeddedFS (extractDir c) r, line]) \<and>
     \<not> registry_event (Call_ExtractEmbeddedFS (extractDir c) r) \<and> \<not> registry_event line \<and>
     (status = 0 \<longleftrightarrow> r = None) \<and> (status = 1 \<longleftrightarrow> r \<noteq> None)"
  using assms by (cases r) (auto simp: main_def)

theorem extract_mode_witness:
  "extractTemplates (sample_cmdline\<lparr>set_extract := Some True\<rparr>) \<and>
   ExtractEmbeddedFS sample_platform (extractDir (sample_cmdline\<lparr>set_extract := Some True\<rparr>)) Map.empty =
     (None, [''./templates/vips.go.tmpl'' \<mapsto> ''package vips'']) \<and>
   (\<exists>status line. main sample_platform (sample_cmdline\<lparr>set_extract := Some True\<rparr>) Map.empty =
      (status, [''./templates/vips.go.tmpl'' \<mapsto> ''package vips''],
       [Call_ExtractEmbeddedFS ''./templates'' None, line]) \<and>
      \<not> registry_event line \<and> status = 0)"
proof -
  have 1: "extractTemplates (sample_cmdline\<lparr>set_extract := Some True\<rparr>)"
    by (simp add: extractTemplates_def)
  have 2: "ExtractEmbeddedFS sample_platform (extractDir (sample_cmdline\<lparr>set_extract := Some True\<rparr>)) Map.empty =
     (None, [''./templates/vips.go.tmpl'' \<mapsto> ''package vips''])"
    by (simp add: sample_platform_def extractDir_def sample_cmdline_def)
  have 3: "extractDir (sample_cmdline\<lparr>set_extract := Some True\<rparr>) = ''./templates''"
    by (simp add: extractDir_def sample_cmdline_def)
  from extract_mode [OF 1 2] 1 2 show ?thesis
    unfolding 3 by auto
qed

lemma sample_run_unfold:
  "Generate mkdirAll_ok (fileLoader units (sample_render bad)) ''out''
     \<lparr>templateData = sample_data test, world = Map.empty, trace = []\<rparr> =
   (fst (sample_run units bad test), snd (sample_run units bad test))"
  by (simp add: sample_run_def run_Generate_def)

text \<open>
  C8. \<^verbatim>\<open>Generate\<close> returns an error and nothing else. When it returns nil, every
  listed template file has left one event, its skip notice or the call that generated
  it, and the output paths of the generated files, in the order of generation, are
  logged after their number; they are not returned. It returns an error exactly when
  one of its calls has returned an error.
\<close>

theorem Generate_result:
  assumes "Generate mk L dir \<lparr>templateData = d, world = w, trace = []\<rparr> = (r, s')"
  shows "(r = None \<longrightarrow>
           (\<exists>tfs evs. list_all2 (unit_step dir) tfs evs \<and>
              trace s' = Call_MkdirAll dir None # Call_ListFiles (Inr tfs) #
                         evs @ success_log (paths (generate_calls evs)))) \<and>
         (r \<noteq> None \<longleftrightarrow> list_ex failed_call (trace s'))"
  using Generate_run [OF assms]
proof (elim disjE exE conjE)
  fix pre t post err evs
  assume a: "r = Some (''failed to generate '' @ output_file dir t @ '': '' @ err)"
    "list_all2 (unit_step dir) pre evs"
    "trace s' = Call_MkdirAll dir None # Call_ListFiles (Inr (pre @ t # post)) #
                evs @ [Call_GenerateFile t (output_file dir t) (Some err)]"
  then show ?thesis by simp
next
  fix tfs evs
  assume a: "r = None" "list_all2 (unit_step dir) tfs evs"
    "trace s' = Call_MkdirAll dir None # Call_ListFiles (Inr tfs) #
                evs @ success_log (paths (generate_calls evs))"
  with unit_steps_not_failed [OF a(2)] show ?thesis by auto
qed simp_all

theorem Generate_result_witness:
  "fst (sample_run [''vips.go.tmpl'', ''vips_test.go.tmpl'', ''image.go.tmpl''] [] False) = None \<and>
   (\<exists>tfs evs. list_all2 (unit_step ''out'') tfs evs \<and>
      trace (snd (sample_run [''vips.go.tmpl'', ''vips_test.go.tmpl'', ''image.go.tmpl''] [] False)) =
        Call_MkdirAll ''out'' None # Call_ListFiles (Inr tfs) #
        evs @ success_log (paths (generate_calls evs))) \<and>
   trace (snd (sample_run [''vips.go.tmpl'', ''vips_test.go.tmpl'', ''image.go.tmpl''] [] False)) =
     [Call_MkdirAll ''out'' None,
      Call_ListFiles (Inr [''vips.go.tmpl'', ''vips_test.go.tmpl'', ''image.go.tmpl'']),
      Call_GenerateFile ''vips.go.tmpl'' ''out/vips.go'' None,
      Log_Printf ''Skipping test template: vips_test.go.tmpl (use --include-test to generate)\<newline>'',
      Call_GenerateFile ''image.go.tmpl'' ''out/image.go'' None,
      Log_Printf ''\<newline>Successfully generated files from templates: 2\<newline>'',
      Log_Printf ''  - out/vips.go\<newline>'',
      Log_Printf ''  - out/image.go\<newline>'']"
proof -
  have ok: "fst (sample_run [''vips.go.tmpl'', ''vips_test.go.tmpl'', ''image.go.tmpl''] [] False) = None"
    by code_simp
  have tr: "trace (snd (sample_run [''vips.go.tmpl'', ''vips_test.go.tmpl'', ''image.go.tmpl''] [] False)) =
     [Call_MkdirAll ''out'' None,
      Call_ListFiles (Inr [''vips.go.tmpl'', ''vips_test.go.tmpl'', ''image.go.tmpl'']),
      Call_GenerateFile ''vips.go.tmpl'' ''out/vips.go'' None,
      Log_Printf ''Skipping test template: vips_test.go.tmpl (use --include-test to generate)\<newline>'',
      Call_GenerateFile ''image.go.tmpl'' ''out/image.go'' None,
      Log_Printf ''\<newline>Successfully generated files from templates: 2\<newline>'',
      Log_Printf ''  - out/vips.go\<newline>'',
      Log_Printf ''  - out/image.go\<newline>'']"
    by code_simp
  from Generate_result [OF sample_run_unfold, of "[''vips.go.tmpl'', ''vips_test.go.tmpl'', ''image.go.tmpl'']" "[]" False] ok
  have "\<exists>tfs evs. list_all2 (unit_step ''out'') tfs evs \<and>
      trace (snd (sample_run [''vips.go.tmpl'', ''vips_test.go.tmpl'', ''image.go.tmpl''] [] False)) =
        Call_MkdirAll ''out'' None # Call_ListFiles (Inr tfs) #
        evs @ success_log (paths (generate_calls evs))"
    by blast
  with ok tr show ?thesis by blast
qed

text \<open>
  C8, as stated, fails: two runs that generate different files return the same value.
\<close>

theorem Generate_returns_no_list:
  "fst (sample_run [''vips.go.tmpl''] [] False) = None \<and>
   fst (sample_run [''vips.go.tmpl'', ''image.go.tmpl''] [] False) = None \<and>
   paths (generate_calls (trace (snd (sample_run [''vips.go.tmpl''] [] False)))) =
     [''out/vips.go''] \<and>
   paths (generate_calls (trace (snd (sample_run [''vips.go.tmpl'', ''image.go.tmpl''] [] False)))) =
     [''out/vips.go'', ''out/image.go'']"
  by code_simp

lemma unit_steps_no_failing_call:
  "list_all2 (unit_step dir) us evs \<Longrightarrow> Call_GenerateFile t p (Some err) \<notin> set evs"
  by (auto dest: unit_steps_events simp: skip_notice_def)




text \<open>
  C4. When a call that generates a template file returns an error, \<^verbatim>\<open>Generate\<close>
  returns the error \<^verbatim>\<open>failed to generate\<close>, followed by the output path of that
  template file, a colon and the text of the error; the failing call is the last event
  of the run, so no template file after it is generated.
\<close>

theorem failure_aborts_batch:
  assumes "Generate mk L dir \<lparr>templateData = d, world = w, trace = []\<rparr> = (r, s')"
    and "Call_GenerateFile t p (Some err) \<in> set (trace s')"
  shows "r = Some (''failed to generate '' @ p @ '': '' @ err) \<and>
     p = Join [dir, TrimSuffix (Base t) ''.tmpl''] \<and>
     (\<exists>pre post evs. list_all2 (unit_step dir) pre evs \<and>
        trace s' = Call_MkdirAll dir None # Call_ListFiles (Inr (pre @ t # post)) #
                   evs @ [Call_GenerateFile t p (Some err)])"
  using Generate_run [OF assms(1)]
proof (elim disjE exE conjE)
  fix err' assume "trace s' = [Call_MkdirAll dir (Some err')]"
  with assms(2) show ?thesis by simp
next
  fix err' assume "trace s' = [Call_MkdirAll dir None, Call_ListFiles (Inl err')]"
  with assms(2) show ?thesis by simp
next
  fix pre t' post err' evs
  assume a: "r = Some (''failed to generate '' @ output_file dir t' @ '': '' @ err')"
    "list_all2 (unit_step dir) pre evs"
    "trace s' = Call_MkdirAll dir None # Call_ListFiles (Inr (pre @ t' # post)) #
                evs @ [Call_GenerateFile t' (output_file dir t') (Some err')]"
  with assms(2) unit_steps_no_failing_call [OF a(2)]
  have "t' = t" "p = output_file dir t" "err' = err" by auto
  with a show ?thesis by (auto simp: output_file_def)
next
  fix tfs evs
  assume a: "list_all2 (unit_step dir) tfs evs"
    "trace s' = Call_MkdirAll dir None # Call_ListFiles (Inr tfs) #
                evs @ success_log (paths (generate_calls evs))"
  with assms(2) unit_steps_no_failing_call [OF a(1)] show ?thesis
    by (auto simp: success_log_def)
qed

theorem failure_aborts_batch_witness:
  "Call_GenerateFile ''image.go.tmpl'' ''out/image.go'' (Some ''boom'')
     \<in> set (trace (snd (sample_run [''vips.go.tmpl'', ''image.go.tmpl'', ''types.go.tmpl'']
                            ''image.go.tmpl'' True))) \<and>
   fst (sample_run [''vips.go.tmpl'', ''image.go.tmpl'', ''types.go.tmpl''] ''image.go.tmpl'' True) =
     Some ''failed to generate out/image.go: boom'' \<and>
   ''out/image.go'' = Join [''out'', TrimSuffix (Base ''image.go.tmpl'') ''.tmpl''] \<and>
   (\<exists>pre post evs. list_all2 (unit_step ''out'') pre evs \<and>
      trace (snd (sample_run [''vips.go.tmpl'', ''image.go.tmpl'', ''types.go.tmpl'']
                             ''image.go.tmpl'' True)) =
        Call_MkdirAll ''out'' None # Call_ListFiles (Inr (pre @ ''image.go.tmpl'' # post)) #
        evs @ [Call_GenerateFile ''image.go.tmpl'' ''out/image.go'' (Some ''boom'')])"
proof -
  have ev: "Call_GenerateFile ''image.go.tmpl'' ''out/image.go'' (Some ''boom'')
     \<in> set (trace (snd (sample_run [''vips.go.tmpl'', ''image.go.tmpl'', ''types.go.tmpl'']
                            ''image.go.tmpl'' True)))"
    by code_simp
  have j: "''out/image.go'' = Join [''out'', TrimSuffix (Base ''image.go.tmpl'') ''.tmpl'']"
    by code_simp
  from failure_aborts_batch [OF sample_run_unfold ev]
  have "fst (sample_run [''vips.go.tmpl'', ''image.go.tmpl'', ''types.go.tmpl''] ''image.go.tmpl'' True) =
     Some (''failed to generate '' @ ''out/image.go'' @ '': '' @ ''boom'')"
    and "\<exists>pre post evs. list_all2 (unit_step ''out'') pre evs \<and>
      trace (snd (sample_run [''vips.go.tmpl'', ''image.go.tmpl'', ''types.go.tmpl'']
                             ''image.go.tmpl'' True)) =
        Call_MkdirAll ''out'' None # Call_ListFiles (Inr (pre @ ''image.go.tmpl'' # post)) #
        evs @ [Call_GenerateFile ''image.go.tmpl'' ''out/image.go'' (Some ''boom'')]"
    by blast+
  with ev j show ?thesis by simp
qed

text \<open>
  C4, as stated, fails: the error carries the output path, and the name of the template
  file does not occur in it.
\<close>

theorem error_names_output_path:
  "fst (sample_run [''vips.go.tmpl'', ''image.go.tmpl'', ''types.go.tmpl''] ''image.go.tmpl'' True) =
     Some ''failed to generate out/image.go: boom'' \<and>
   \<not> Contains ''failed to generate out/image.go: boom'' ''image.go.tmpl''"
  by code_simp




lemma written_for_success_log [simp]: "written_for t (success_log gf) = []"
  by (simp add: written_for_def)




lemma last_element_no_separator:
  "CHR ''/'' \<notin> set b \<Longrightarrow> last_element acc b = acc @ b"
  by (induction b arbitrary: acc) (auto simp: IsPathSeparator_def)

lemma last_element_after_separator:
  "CHR ''/'' \<notin> set b \<Longrightarrow> last_element acc (xs @ CHR ''/'' # b) = b"
  by (induction xs arbitrary: acc) (auto simp: IsPathSeparator_def last_element_no_separator)

lemma strip_trailing_none:
  "path \<noteq> [] \<Longrightarrow> last path \<noteq> CHR ''/'' \<Longrightarrow> strip_trailing path = path"
  by (subst strip_trailing.simps) (simp add: IsPathSeparator_def)

lemma Base_in_directory:
  assumes "b \<noteq> []" and "CHR ''/'' \<notin> set b"
  shows "Base (dir @ ''/'' @ b) = b"
proof -
  from assms(1) have "last b \<in> set b" by simp
  with assms(2) have "last b \<noteq> CHR ''/''" by auto
  moreover from assms(1) have "last (dir @ ''/'' @ b) = last b" by simp
  ultimately have "last (dir @ ''/'' @ b) \<noteq> CHR ''/''" by simp
  then have "strip_trailing (dir @ ''/'' @ b) = dir @ ''/'' @ b"
    by (intro strip_trailing_none) simp_all
  with assms show ?thesis
    by (simp add: Base_def last_element_after_separator)
qed

lemma fileLoader_GenerateFile:
  "GenerateFile (fileLoader units render) t p d w =
     (case render t d of Inl err \<Rightarrow> (Some err, d, w) | Inr bytes \<Rightarrow> (None, d, w(p \<mapsto> bytes)))"
  by (simp add: fileLoader_def)

lemma fileLoader_loop_frame:
  "generate_loop (fileLoader units render) dir tfs gf s = (r, gf', s') \<Longrightarrow>
   \<forall>v\<in>set tfs. skipped (templateData s) v \<or> output_file dir v \<noteq> p \<Longrightarrow>
   world s' p = world s p"
proof (induction tfs arbitrary: gf s)
  case Nil
  then show ?case by (simp add: generate_loop.simps)
next
  case (Cons t tfs)
  show ?case
  proof (cases "skipped (templateData s) t")
    case True
    with Cons.prems(1) have
      "generate_loop (fileLoader units render) dir tfs gf (s\<lparr>trace := trace s @ [skip_notice t]\<rparr>) =
         (r, gf', s')"
      by (simp add: generate_loop_skip)
    from Cons.IH [OF this] Cons.prems(2) show ?thesis by simp
  next
    case False
    with Cons.prems(2) have p: "output_file dir t \<noteq> p" by simp
    show ?thesis
    proof (cases "render t (templateData s)")
      case (Inl err)
      with False Cons.prems(1) show ?thesis
        by (auto simp: generate_loop_fail fileLoader_GenerateFile)
    next
      case (Inr bytes)
      with False Cons.prems(1) have
        "generate_loop (fileLoader units render) dir tfs (gf @ [output_file dir t])
           (s\<lparr>templateData := templateData s, world := (world s)(output_file dir t \<mapsto> bytes),
              trace := trace s @ [Call_GenerateFile t (output_file dir t) None]\<rparr>) = (r, gf', s')"
        by (simp add: generate_loop_ok fileLoader_GenerateFile)
      from Cons.IH [OF this] Cons.prems(2) p show ?thesis by simp
    qed
  qed
qed

lemma fileLoader_loop_last_write:
  "generate_loop (fileLoader units render) dir (pre @ u # post) gf s = (None, gf', s') \<Longrightarrow>
   \<not> skipped (templateData s) u \<Longrightarrow>
   \<forall>v\<in>set post. skipped (templateData s) v \<or> output_file dir v \<noteq> output_file dir u \<Longrightarrow>
   \<exists>bytes. render u (templateData s) = Inr bytes \<and> world s' (output_file dir u) = Some bytes"
proof (induction pre arbitrary: gf s)
  case Nil
  show ?case
  proof (cases "render u (templateData s)")
    case (Inl err)
    with Nil show ?thesis
      by (auto simp: generate_loop_fail fileLoader_GenerateFile)
  next
    case (Inr bytes)
    with Nil have
      "generate_loop (fileLoader units render) dir post (gf @ [output_file dir u])
         (s\<lparr>templateData := templateData s, world := (world s)(output_file dir u \<mapsto> bytes),
            trace := trace s @ [Call_GenerateFile u (output_file dir u) None]\<rparr>) = (None, gf', s')"
      by (simp add: generate_loop_ok fileLoader_GenerateFile)
    from fileLoader_loop_frame [OF this, of "output_file dir u"] Nil.prems(3) Inr
    show ?thesis by simp
  qed
next
  case (Cons t pre)
  show ?case
  proof (cases "skipped (templateData s) t")
    case True
    with Cons.prems(1) have
      "generate_loop (fileLoader units render) dir (pre @ u # post) gf
         (s\<lparr>trace := trace s @ [skip_notice t]\<rparr>) = (None, gf', s')"
      by (simp add: generate_loop_skip)
    from Cons.IH [OF this] Cons.prems(2,3) show ?thesis by simp
  next
    case False
    show ?thesis
    proof (cases "render t (templateData s)")
      case (Inl err)
      with False Cons.prems(1) show ?thesis
        by (auto simp: generate_loop_fail fileLoader_GenerateFile)
    next
      case (Inr bytes)
      with False Cons.prems(1) have
        "generate_loop (fileLoader units render) dir (pre @ u # post) (gf @ [output_file dir t])
           (s\<lparr>templateData := templateData s, world := (world s)(output_file dir t \<mapsto> bytes),
              trace := trace s @ [Call_GenerateFile t (output_file dir t) None]\<rparr>) = (None, gf', s')"
        by (simp add: generate_loop_ok fileLoader_GenerateFile)
      from Cons.IH [OF this] Cons.prems(2,3) show ?thesis by simp
    qed
  qed
qed

lemma run_Generate_last_write:
  assumes run: "run_Generate (fileLoader (pre @ u # post) render) dir d = (None, s')"
    and u: "\<not> skipped d u"
    and post: "\<forall>v\<in>set post. skipped d v \<or> output_file dir v \<noteq> output_file dir u"
  shows "\<exists>bytes. render u d = Inr bytes \<and> world s' (output_file dir u) = Some bytes"
proof -
  define s0 :: "(string \<rightharpoonup> string, ('a, 'b, 'c) TemplateData) store" where
    "s0 = \<lparr>templateData = d, world = Map.empty,
           trace = [Call_MkdirAll dir None, Call_ListFiles (Inr (pre @ u # post))]\<rparr>"
  obtain e gf s1 where lp:
    "generate_loop (fileLoader (pre @ u # post) render) dir (pre @ u # post) [] s0 = (e, gf, s1)"
    by (cases "generate_loop (fileLoader (pre @ u # post) render) dir (pre @ u # post) [] s0") auto
  have ls: "ListFiles (fileLoader (pre @ u # post) render) Map.empty = (Inr (pre @ u # post), Map.empty)"
    by (simp add: fileLoader_def)
  from run lp have e: "e = None"
    by (cases e) (simp_all add: run_Generate_def Generate_def mkdirAll_ok_def ls s0_def)
  from run lp e have "world s' = world s1"
    by (auto simp add: run_Generate_def Generate_def mkdirAll_ok_def ls s0_def)
  with e fileLoader_loop_last_write [OF lp [unfolded e]] u post show ?thesis
    by (simp add: s0_def)
qed

lemma generate_calls_units:
  "generate_calls (map (unit_event d dir) us) =
     map (\<lambda>u. (u, output_file dir u, None)) (filter (\<lambda>u. \<not> skipped d u) us)"
  by (induction us) (simp_all add: unit_event_def)

lemma run_Generate_success_trace:
  assumes run: "run_Generate (fileLoader units render) dir d = (None, s')"
  shows "trace s' = Call_MkdirAll dir None # Call_ListFiles (Inr units) #
                    map (unit_event d dir) units @
                    success_log (map (output_file dir) (filter (\<lambda>t. \<not> skipped d t) units))"
proof -
  define s0 :: "(string \<rightharpoonup> string, ('a, 'b, 'c) TemplateData) store" where
    "s0 = \<lparr>templateData = d, world = Map.empty,
           trace = [Call_MkdirAll dir None, Call_ListFiles (Inr units)]\<rparr>"
  obtain e gf s1 where lp:
    "generate_loop (fileLoader units render) dir units [] s0 = (e, gf, s1)"
    by (cases "generate_loop (fileLoader units render) dir units [] s0") auto
  have ls: "ListFiles (fileLoader units render) Map.empty = (Inr units, Map.empty)"
    by (simp add: fileLoader_def)
  from run lp have e: "e = None"
    by (cases e) (simp_all add: run_Generate_def Generate_def mkdirAll_ok_def ls s0_def)
  from run lp e have s': "s' = s1\<lparr>trace := trace s1 @ success_log gf\<rparr>"
    by (auto simp add: run_Generate_def Generate_def mkdirAll_ok_def ls s0_def success_log_def)
  from loop_success [OF fileLoader_read_only lp [unfolded e]]
  have "gf = map (output_file dir) (filter (\<lambda>t. \<not> skipped d t) units)"
    and "trace s1 = [Call_MkdirAll dir None, Call_ListFiles (Inr units)] @
                    map (unit_event d dir) units"
    by (simp_all add: s0_def)
  with s' show ?thesis by simp
qed

lemma run_Generate_success_calls:
  assumes "run_Generate (fileLoader units render) dir d = (None, s')"
  shows "generate_calls (trace s') =
     map (\<lambda>u. (u, output_file dir u, None)) (filter (\<lambda>u. \<not> skipped d u) units)"
proof -
  from run_Generate_success_trace [OF assms]
  have "trace s' = [Call_MkdirAll dir None, Call_ListFiles (Inr units)] @
                   map (unit_event d dir) units @
                   success_log (map (output_file dir) (filter (\<lambda>t. \<not> skipped d t) units))"
    by simp
  then have "generate_calls (trace s') =
     generate_calls [Call_MkdirAll dir None, Call_ListFiles (Inr units)] @
     generate_calls (map (unit_event d dir) units) @ []"
    by (simp only: generate_calls_append generate_calls_success_log)
  then show ?thesis by (simp add: generate_calls_units)
qed

text \<open>
  C10. The output path is computed from the base name of a template file alone: two
  template files \<^verbatim>\<open>d1/b\<close> and \<^verbatim>\<open>d2/b\<close> in different directories have the same
  output path, the output directory joined with \<^verbatim>\<open>b\<close> without its suffix. In a run
  that returns nil both are generated at that path, the one listed first before the
  other, and with a loader that writes what it renders the file holds the rendering of
  the later one when no template file listed after it has the same output path.
\<close>

theorem same_base_name_overwrites:
  assumes "b \<noteq> []" and "CHR ''/'' \<notin> set b"
    and "run_Generate
           (fileLoader (pre @ (d1 @ ''/'' @ b) # mid @ (d2 @ ''/'' @ b) # post) render)
           dir d = (None, s')"
    and "IncludeTest d \<or> \<not> HasSuffix b ''_test.go.tmpl''"
    and "\<forall>v\<in>set post. output_file dir v \<noteq> Join [dir, TrimSuffix b ''.tmpl'']"
  shows "output_file dir (d1 @ ''/'' @ b) = Join [dir, TrimSuffix b ''.tmpl''] \<and>
         output_file dir (d2 @ ''/'' @ b) = Join [dir, TrimSuffix b ''.tmpl''] \<and>
         (d1 @ ''/'' @ b, Join [dir, TrimSuffix b ''.tmpl''], None)
           \<in> set (generate_calls (trace s')) \<and>
         (d2 @ ''/'' @ b, Join [dir, TrimSuffix b ''.tmpl''], None)
           \<in> set (generate_calls (trace s')) \<and>
         (\<exists>bytes. render (d2 @ ''/'' @ b) d = Inr bytes \<and>
                   world s' (Join [dir, TrimSuffix b ''.tmpl'']) = Some bytes)"
proof -
  let ?p = "Join [dir, TrimSuffix b ''.tmpl'']"
  let ?units = "pre @ (d1 @ ''/'' @ b) # mid @ (d2 @ ''/'' @ b) # post"
  have o1: "output_file dir (d1 @ ''/'' @ b) = ?p"
    and o2: "output_file dir (d2 @ ''/'' @ b) = ?p"
    unfolding output_file_def Base_in_directory [OF assms(1,2)] by simp_all
  have n1: "\<not> skipped d (d1 @ ''/'' @ b)" and n2: "\<not> skipped d (d2 @ ''/'' @ b)"
    unfolding skipped_def test_template_def Base_in_directory [OF assms(1,2)]
    using assms(4) by auto
  have "generate_calls (trace s') =
    map (\<lambda>u. (u, output_file dir u, None)) (filter (\<lambda>u. \<not> skipped d u) ?units)"
    by (rule run_Generate_success_calls [OF assms(3)])
  with n1 n2 o1 o2 have c1: "(d1 @ ''/'' @ b, ?p, None) \<in> set (generate_calls (trace s'))"
    and c2: "(d2 @ ''/'' @ b, ?p, None) \<in> set (generate_calls (trace s'))"
    by (auto simp: image_iff)
  have run: "run_Generate
      (fileLoader ((pre @ (d1 @ ''/'' @ b) # mid) @ (d2 @ ''/'' @ b) # post) render) dir d = (None, s')"
    using assms(3) by simp
  from assms(5) o2 have "\<forall>v\<in>set post. skipped d v \<or>
      output_file dir v \<noteq> output_file dir (d2 @ ''/'' @ b)"
    by simp
  from run_Generate_last_write [OF run n2 this] o2
  have "\<exists>bytes. render (d2 @ ''/'' @ b) d = Inr bytes \<and> world s' ?p = Some bytes"
    by simp
  with o1 o2 c1 c2 show ?thesis by blast
qed

theorem same_base_name_overwrites_witness:
  "''types.go.tmpl'' \<noteq> [] \<and> CHR ''/'' \<notin> set ''types.go.tmpl'' \<and>
   fst (sample_run [''a/types.go.tmpl'', ''vips.go.tmpl'', ''b/types.go.tmpl''] [] False) = None \<and>
   (IncludeTest (sample_data False) \<or> \<not> HasSuffix ''types.go.tmpl'' ''_test.go.tmpl'') \<and>
   output_file ''out'' ''a/types.go.tmpl'' = ''out/types.go'' \<and>
   output_file ''out'' ''b/types.go.tmpl'' = ''out/types.go'' \<and>
   (''a/types.go.tmpl'', ''out/types.go'', None) \<in> set (generate_calls (trace (snd
      (sample_run [''a/types.go.tmpl'', ''vips.go.tmpl'', ''b/types.go.tmpl''] [] False)))) \<and>
   (''b/types.go.tmpl'', ''out/types.go'', None) \<in> set (generate_calls (trace (snd
      (sample_run [''a/types.go.tmpl'', ''vips.go.tmpl'', ''b/types.go.tmpl''] [] False)))) \<and>
   sample_render [] ''b/types.go.tmpl'' (sample_data False) =
     Inr ''// b/types.go.tmpl for libvips 8.18.0'' \<and>
   world (snd (sample_run [''a/types.go.tmpl'', ''vips.go.tmpl'', ''b/types.go.tmpl''] [] False))
     ''out/types.go'' = Some ''// b/types.go.tmpl for libvips 8.18.0''"
proof -
  have b: "''types.go.tmpl'' \<noteq> []" "CHR ''/'' \<notin> set ''types.go.tmpl''"
    by simp_all
  have ok: "fst (sample_run [''a/types.go.tmpl'', ''vips.go.tmpl'', ''b/types.go.tmpl''] [] False) = None"
    by code_simp
  have run: "run_Generate
      (fileLoader ([] @ (''a'' @ ''/'' @ ''types.go.tmpl'') # [''vips.go.tmpl''] @
                   (''b'' @ ''/'' @ ''types.go.tmpl'') # []) (sample_render []))
      ''out'' (sample_data False) =
    (None, snd (sample_run [''a/types.go.tmpl'', ''vips.go.tmpl'', ''b/types.go.tmpl''] [] False))"
    using ok by (simp add: sample_run_def prod_eq_iff)
  have t: "IncludeTest (sample_data False) \<or> \<not> HasSuffix ''types.go.tmpl'' ''_test.go.tmpl''"
    by code_simp
  have post: "\<forall>v\<in>set []. output_file ''out'' v \<noteq> Join [''out'', TrimSuffix ''types.go.tmpl'' ''.tmpl'']"
    by simp
  have p: "Join [''out'', TrimSuffix ''types.go.tmpl'' ''.tmpl''] = ''out/types.go''"
    by code_simp
  have r: "sample_render [] ''b/types.go.tmpl'' (sample_data False) =
     Inr ''// b/types.go.tmpl for libvips 8.18.0''"
    by code_simp
  from same_base_name_overwrites [OF b run t post] b ok t r show ?thesis
    unfolding p by simp
qed



lemma calls_pairs:
  "map (\<lambda>(t, p, a). (t, p)) (map (\<lambda>u. (u, output_file dir u, a')) us) =
   map (\<lambda>t. (t, Join [dir, TrimSuffix (Base t) ''.tmpl''])) us"
  by (simp add: output_file_def)



text \<open>
  C7, as stated, fails: \<^verbatim>\<open>GenerateFile\<close> is handed the pointer to the template data,
  and with a loader that writes through it the version string is another one when
  \<^verbatim>\<open>Generate\<close> returns.
\<close>

theorem loader_changes_TemplateData:
  "VipsVersion (sample_data False) = ''8.18.0'' \<and>
   fst (run_Generate (versionWriter [''vips.go.tmpl'']) ''out'' (sample_data False)) = None \<and>
   VipsVersion (templateData (snd
     (run_Generate (versionWriter [''vips.go.tmpl'']) ''out'' (sample_data False)))) = ''0.0.0''"
  by code_simp

end
